theory Spec2Isabelle
  imports Main
begin

section \<open>The SASL/SCRAM client of \<^verbatim>\<open>kafka/client/sasl_client.cc\<close>\<close>

text \<open>
  The file holds four coroutines: \<^verbatim>\<open>do_sasl_handshake\<close>,
  \<^verbatim>\<open>send_scram_client_first\<close>, \<^verbatim>\<open>send_scram_client_final\<close> and the
  template \<^verbatim>\<open>do_authenticate_scram\<close>. Each is embedded as a function
  on an explicit world: the random generator, the state of the remote broker and the
  list of calls made so far. A thrown exception is the \<open>Inl\<close> branch of the result.
  Everything the file calls but does not define (the message classes of namespace
  \<^verbatim>\<open>security\<close>, the \<^verbatim>\<open>ScramAlgo\<close> policy, the broker, the formatter) is a
  parameter.
\<close>

subsection \<open>Values\<close>

type_synonym bytes = string
type_synonym node_id = int

text \<open>
  Modelled from the spec: the enumeration \<^verbatim>\<open>error_code\<close> is declared outside the
  file. The code names two of its members, \<^verbatim>\<open>error_code::none\<close> ("a protocol-level
  error code, none on success") and \<^verbatim>\<open>error_code::sasl_authentication_failed\<close>;
  every other member is \<open>other_error_code\<close> with its number.
\<close>

datatype error_code = none | sasl_authentication_failed | other_error_code int

text \<open>
  \<^verbatim>\<open>broker_error{node, code}\<close> and \<^verbatim>\<open>broker_error{node, code, message}\<close>: the
  message is \<open>None\<close> where the code passes two arguments.
\<close>

record broker_error =
  be_node_id :: node_id
  be_error :: error_code
  be_message :: "string option"

text \<open>
  What a coroutine of the file can end with instead of a value: a \<open>broker_error\<close> thrown
  by the file itself, or an exception that a callee outside the file raised (the
  dispatch, a message constructor) and that passes through unchanged.
\<close>

datatype exn = Broker_error broker_error | Foreign_exception string

subsection \<open>Requests and responses\<close>

record sasl_handshake_request =
  mechanism :: string

record sasl_handshake_response =
  handshake_error_code :: error_code

record sasl_authenticate_request =
  auth_bytes :: bytes

record sasl_authenticate_response =
  error_code :: error_code
  error_message :: "string option"
  resp_auth_bytes :: bytes

subsection \<open>The SCRAM messages\<close>

text \<open>
  Modelled from the spec: the four message classes are declared outside the file; their
  fields are those of the data model (ClientFirstMessage, ServerFirstMessage,
  ClientFinalMessage with a proof that is unset at construction, ServerFinalMessage with
  a signature and an optional error).
\<close>

record client_first_message =
  cf_username :: string
  cf_nonce :: string

record server_first_message =
  sf_nonce :: string
  sf_salt :: bytes
  sf_iterations :: int

record client_final_message =
  channel_binding :: bytes
  final_nonce :: string
  final_proof :: "bytes option"

record server_final_message =
  signature :: bytes
  sfin_error :: "string option"

definition new_client_first_message :: "string \<Rightarrow> string \<Rightarrow> client_first_message" where
  "new_client_first_message username nonce = \<lparr>cf_username = username, cf_nonce = nonce\<rparr>"

definition new_client_final_message :: "bytes \<Rightarrow> string \<Rightarrow> client_final_message" where
  "new_client_final_message cb nonce =
     \<lparr>channel_binding = cb, final_nonce = nonce, final_proof = None\<rparr>"

definition set_proof :: "client_final_message \<Rightarrow> bytes \<Rightarrow> client_final_message" where
  "set_proof m p = m\<lparr>final_proof := Some p\<rparr>"

text \<open>
  The wire forms and the two parsing constructors are outside the file, and so is the
  macro \<^verbatim>\<open>fmt_with_ctx\<close>: they are fields of \<open>security\<close>. A parsing constructor may
  throw.
\<close>

record security =
  client_first_message_bytes :: "client_first_message \<Rightarrow> bytes"
  parse_server_first_message :: "bytes \<Rightarrow> exn + server_first_message"
  client_final_message_bytes :: "client_final_message \<Rightarrow> bytes"
  parse_server_final_message :: "bytes \<Rightarrow> exn + server_final_message"
  fmt_with_ctx :: "string \<Rightarrow> int list \<Rightarrow> string"

text \<open>The template parameter \<^verbatim>\<open>ScramAlgo\<close>.\<close>

record scram_algo =
  min_iterations :: int
  hi :: "bytes \<Rightarrow> bytes \<Rightarrow> int \<Rightarrow> bytes"
  client_proof :: "bytes \<Rightarrow> client_first_message \<Rightarrow> server_first_message
                    \<Rightarrow> client_final_message \<Rightarrow> bytes"
  server_key :: "bytes \<Rightarrow> bytes"
  server_signature :: "bytes \<Rightarrow> client_first_message \<Rightarrow> server_first_message
                        \<Rightarrow> client_final_message \<Rightarrow> bytes"

subsection \<open>The world\<close>

text \<open>
  One entry per call that leaves the file, in the order the calls are made.
\<close>

datatype event =
    Dispatched_handshake sasl_handshake_request
  | Dispatched_authenticate sasl_authenticate_request
  | Decoded_server_first bytes
  | Decoded_server_final bytes
  | Derived_salted_password bytes bytes int
  | Computed_client_proof bytes
  | Computed_server_key bytes
  | Computed_server_signature bytes
  | Compared_signature bytes bytes

type_synonym entropy = "nat \<Rightarrow> nat"

record 'b world =
  rng :: entropy
  server :: 'b
  trace :: "event list"

definition emit :: "event \<Rightarrow> 'b world \<Rightarrow> 'b world" where
  "emit e w = w\<lparr>trace := trace w @ [e]\<rparr>"

text \<open>
  \<^verbatim>\<open>shared_broker_t\<close>: \<^verbatim>\<open>broker->id()\<close> and \<^verbatim>\<open>broker->dispatch(req)\<close>, one
  dispatch per request type. The remote end has a state of its own, of any type \<open>'b\<close>;
  a dispatch may throw instead of returning a response.
\<close>

record 'b broker =
  broker_id :: node_id
  handshake_reply :: "sasl_handshake_request \<Rightarrow> 'b \<Rightarrow> (exn + sasl_handshake_response) \<times> 'b"
  authenticate_reply ::
    "sasl_authenticate_request \<Rightarrow> 'b \<Rightarrow> (exn + sasl_authenticate_response) \<times> 'b"

definition dispatch_handshake ::
  "'b broker \<Rightarrow> sasl_handshake_request \<Rightarrow> 'b world
     \<Rightarrow> (exn + sasl_handshake_response) \<times> 'b world" where
  "dispatch_handshake broker req w =
     (case handshake_reply broker req (server w) of
        (r, s) \<Rightarrow> (r, emit (Dispatched_handshake req) (w\<lparr>server := s\<rparr>)))"

definition dispatch_authenticate ::
  "'b broker \<Rightarrow> sasl_authenticate_request \<Rightarrow> 'b world
     \<Rightarrow> (exn + sasl_authenticate_response) \<times> 'b world" where
  "dispatch_authenticate broker req w =
     (case authenticate_reply broker req (server w) of
        (r, s) \<Rightarrow> (r, emit (Dispatched_authenticate req) (w\<lparr>server := s\<rparr>)))"

text \<open>
  Modelled from the spec: \<^verbatim>\<open>random_generators::gen_alphanum_string\<close> is outside the
  file. The spec has it produce a random alphanumeric string of the length asked for.
  Here each character is picked by one draw from the supply of random numbers, and the
  draws that were used are gone from the supply that is handed back.
\<close>

definition alphanum :: string where
  "alphanum = ''0123456789ABCDEFGHIJKLMNOPQRSTUVWXYZabcdefghijklmnopqrstuvwxyz''"

definition gen_alphanum_string :: "nat \<Rightarrow> entropy \<Rightarrow> string \<times> entropy" where
  "gen_alphanum_string n g =
     (map (\<lambda>i. alphanum ! (g i mod length alphanum)) [0..<n], \<lambda>i. g (i + n))"

text \<open>\<^verbatim>\<open>std::string_view(s).starts_with(p)\<close>.\<close>

fun starts_with :: "string \<Rightarrow> string \<Rightarrow> bool" where
  "starts_with s [] = True"
| "starts_with [] (p # ps) = False"
| "starts_with (c # s) (p # ps) = (c = p \<and> starts_with s ps)"

subsection \<open>The coroutines\<close>

text \<open>
  \<^verbatim>\<open>do_sasl_handshake\<close>, lines 15 to 23: build the request, dispatch it, throw on an
  error code other than \<^verbatim>\<open>none\<close>.
\<close>

definition do_sasl_handshake ::
  "'b broker \<Rightarrow> string \<Rightarrow> 'b world \<Rightarrow> (exn + unit) \<times> 'b world" where
  "do_sasl_handshake broker mech w =
     (let req = \<lparr>mechanism = mech\<rparr> in
      case dispatch_handshake broker req w of
        (Inl e, w') \<Rightarrow> (Inl e, w')
      | (Inr resp, w') \<Rightarrow>
          if handshake_error_code resp \<noteq> none
          then (Inl (Broker_error \<lparr>be_node_id = broker_id broker,
                                   be_error = handshake_error_code resp,
                                   be_message = None\<rparr>), w')
          else (Inr (), w'))"

text \<open>\<^verbatim>\<open>std::optional::value_or\<close>.\<close>

definition value_or :: "'a option \<Rightarrow> 'a \<Rightarrow> 'a" where
  "value_or x d = (case x of None \<Rightarrow> d | Some v \<Rightarrow> v)"

text \<open>
  \<^verbatim>\<open>send_scram_client_first\<close>, lines 25 to 41: the request carries the bytes of
  \<^verbatim>\<open>client_first.message()\<close>; an error code other than \<^verbatim>\<open>none\<close> throws (line 34);
  otherwise the payload goes to the constructor of \<^verbatim>\<open>server_first_message\<close> (line 40).
\<close>

definition send_scram_client_first ::
  "security \<Rightarrow> 'b broker \<Rightarrow> client_first_message \<Rightarrow> 'b world
     \<Rightarrow> (exn + server_first_message) \<times> 'b world" where
  "send_scram_client_first sec broker client_first w =
     (let client_first_req = \<lparr>auth_bytes = client_first_message_bytes sec client_first\<rparr> in
      case dispatch_authenticate broker client_first_req w of
        (Inl e, w') \<Rightarrow> (Inl e, w')
      | (Inr client_first_resp, w') \<Rightarrow>
          if error_code client_first_resp \<noteq> none
          then (Inl (Broker_error \<lparr>be_node_id = broker_id broker,
                                   be_error = error_code client_first_resp,
                                   be_message = Some (value_or (error_message client_first_resp)
                                                        ''<no error message>'')\<rparr>), w')
          else (parse_server_first_message sec (resp_auth_bytes client_first_resp),
                emit (Decoded_server_first (resp_auth_bytes client_first_resp)) w'))"

text \<open>
  \<^verbatim>\<open>send_scram_client_final\<close>, lines 43 to 63, is the same with
  \<^verbatim>\<open>client_final.message()\<close> and the constructor of \<^verbatim>\<open>server_final_message\<close>.
\<close>

definition send_scram_client_final ::
  "security \<Rightarrow> 'b broker \<Rightarrow> client_final_message \<Rightarrow> 'b world
     \<Rightarrow> (exn + server_final_message) \<times> 'b world" where
  "send_scram_client_final sec broker client_final w =
     (let client_last_req = \<lparr>auth_bytes = client_final_message_bytes sec client_final\<rparr> in
      case dispatch_authenticate broker client_last_req w of
        (Inl e, w') \<Rightarrow> (Inl e, w')
      | (Inr client_last_resp, w') \<Rightarrow>
          if error_code client_last_resp \<noteq> none
          then (Inl (Broker_error \<lparr>be_node_id = broker_id broker,
                                   be_error = error_code client_last_resp,
                                   be_message = Some (value_or (error_message client_last_resp)
                                                        ''<no error message>'')\<rparr>), w')
          else (parse_server_final_message sec (resp_auth_bytes client_last_resp),
                emit (Decoded_server_final (resp_auth_bytes client_last_resp)) w'))"

text \<open>
  \<^verbatim>\<open>do_authenticate_scram\<close>, lines 65 to 136. The worlds \<open>w1\<close> to \<open>w7\<close> record the
  calls in the order of the source: \<^verbatim>\<open>ScramAlgo::hi\<close> (line 105),
  \<^verbatim>\<open>ScramAlgo::client_proof\<close> (line 110), \<^verbatim>\<open>ScramAlgo::server_key\<close> (line 126),
  \<^verbatim>\<open>ScramAlgo::server_signature\<close> (line 127) and the comparison of line 130.
  \<^verbatim>\<open>do_authenticate_scram256\<close> and \<^verbatim>\<open>do_authenticate_scram512\<close> (lines 138 to 148)
  are this function at \<^verbatim>\<open>security::scram_sha256\<close> and \<^verbatim>\<open>security::scram_sha512\<close>.
\<close>

definition do_authenticate_scram ::
  "scram_algo \<Rightarrow> security \<Rightarrow> 'b broker \<Rightarrow> string \<Rightarrow> string \<Rightarrow> 'b world
     \<Rightarrow> (exn + unit) \<times> 'b world" where
  "do_authenticate_scram algo sec broker username password w =
     (let (nonce, g) = gen_alphanum_string 130 (rng w);
          client_first = new_client_first_message username nonce
      in
      case send_scram_client_first sec broker client_first (w\<lparr>rng := g\<rparr>) of
        (Inl e, w1) \<Rightarrow> (Inl e, w1)
      | (Inr server_first, w1) \<Rightarrow>
          if \<not> starts_with (sf_nonce server_first) nonce
          then (Inl (Broker_error \<lparr>be_node_id = broker_id broker,
                                   be_error = sasl_authentication_failed,
                                   be_message = Some ''Server nonce doesn't match client nonce''\<rparr>),
                w1)
          else if sf_iterations server_first < min_iterations algo
          then (Inl (Broker_error \<lparr>be_node_id = broker_id broker,
                                   be_error = sasl_authentication_failed,
                                   be_message = Some (fmt_with_ctx sec
                                     ''Server minimum iterations {} < required {}''
                                     [sf_iterations server_first, min_iterations algo])\<rparr>),
                w1)
          else
            let client_final = new_client_final_message ''n,,'' (sf_nonce server_first);
                salted_password = hi algo password (sf_salt server_first)
                                    (sf_iterations server_first);
                w2 = emit (Derived_salted_password password (sf_salt server_first)
                             (sf_iterations server_first)) w1;
                client_final' = set_proof client_final
                                  (client_proof algo salted_password client_first
                                     server_first client_final);
                w3 = emit (Computed_client_proof salted_password) w2
            in (case send_scram_client_final sec broker client_final' w3 of
                 (Inl e, w4) \<Rightarrow> (Inl e, w4)
               | (Inr server_final, w4) \<Rightarrow>
                   (case sfin_error server_final of
                      Some msg \<Rightarrow>
                        (Inl (Broker_error \<lparr>be_node_id = broker_id broker,
                                            be_error = sasl_authentication_failed,
                                            be_message = Some msg\<rparr>), w4)
                    | None \<Rightarrow>
                        let skey = server_key algo salted_password;
                            w5 = emit (Computed_server_key salted_password) w4;
                            server_sig = server_signature algo skey client_first
                                           server_first client_final';
                            w6 = emit (Computed_server_signature skey) w5;
                            w7 = emit (Compared_signature (signature server_final) server_sig) w6
                        in if signature server_final \<noteq> server_sig
                           then (Inl (Broker_error \<lparr>be_node_id = broker_id broker,
                                   be_error = sasl_authentication_failed,
                                   be_message =
                                     Some ''Server signature does not match calculated signature''\<rparr>),
                                 w7)
                           else (Inr (), w7))))"

subsection \<open>The stages of one attempt\<close>

text \<open>
  Names for the values that \<^verbatim>\<open>do_authenticate_scram\<close> holds in its local variables:
  \<open>attempt_nonce\<close> is \<^verbatim>\<open>nonce\<close> (line 71), \<open>attempt_client_first\<close> is
  \<^verbatim>\<open>client_first\<close> (line 72), \<open>first_round\<close> is the call of line 77,
  \<open>salted_password_of\<close> is \<^verbatim>\<open>salted_password\<close> (line 105), \<open>client_final_of\<close> is
  \<^verbatim>\<open>client_final\<close> once the proof is set (lines 102 to 111), \<open>second_round\<close> is the
  call of line 113 and \<open>expected_signature\<close> is \<^verbatim>\<open>server_sig\<close> (line 127). Lemma
  \<open>do_authenticate_scram_stages\<close> below shows that the function is the composition of
  these stages.
\<close>

definition attempt_nonce :: "'b world \<Rightarrow> string" where
  "attempt_nonce w = fst (gen_alphanum_string 130 (rng w))"

definition attempt_client_first :: "string \<Rightarrow> 'b world \<Rightarrow> client_first_message" where
  "attempt_client_first username w = new_client_first_message username (attempt_nonce w)"

definition first_round ::
  "security \<Rightarrow> 'b broker \<Rightarrow> string \<Rightarrow> 'b world \<Rightarrow> (exn + server_first_message) \<times> 'b world" where
  "first_round sec broker username w =
     send_scram_client_first sec broker (attempt_client_first username w)
       (w\<lparr>rng := snd (gen_alphanum_string 130 (rng w))\<rparr>)"

definition salted_password_of :: "scram_algo \<Rightarrow> string \<Rightarrow> server_first_message \<Rightarrow> bytes" where
  "salted_password_of algo password sf = hi algo password (sf_salt sf) (sf_iterations sf)"

definition client_final_of ::
  "scram_algo \<Rightarrow> string \<Rightarrow> client_first_message \<Rightarrow> server_first_message
     \<Rightarrow> client_final_message" where
  "client_final_of algo password cf sf =
     set_proof (new_client_final_message ''n,,'' (sf_nonce sf))
       (client_proof algo (salted_password_of algo password sf) cf sf
          (new_client_final_message ''n,,'' (sf_nonce sf)))"

definition second_round ::
  "scram_algo \<Rightarrow> security \<Rightarrow> 'b broker \<Rightarrow> string \<Rightarrow> client_first_message
     \<Rightarrow> server_first_message \<Rightarrow> 'b world \<Rightarrow> (exn + server_final_message) \<times> 'b world" where
  "second_round algo sec broker password cf sf w1 =
     send_scram_client_final sec broker (client_final_of algo password cf sf)
       (emit (Computed_client_proof (salted_password_of algo password sf))
          (emit (Derived_salted_password password (sf_salt sf) (sf_iterations sf)) w1))"

definition expected_signature ::
  "scram_algo \<Rightarrow> string \<Rightarrow> client_first_message \<Rightarrow> server_first_message \<Rightarrow> bytes" where
  "expected_signature algo password cf sf =
     server_signature algo (server_key algo (salted_password_of algo password sf)) cf sf
       (client_final_of algo password cf sf)"

text \<open>The \<^verbatim>\<open>broker_error\<close> of lines 82, 89, 120 and 131, up to its message.\<close>

definition failure :: "'b broker \<Rightarrow> string \<Rightarrow> exn" where
  "failure broker msg =
     Broker_error \<lparr>be_node_id = broker_id broker, be_error = sasl_authentication_failed,
                   be_message = Some msg\<rparr>"

text \<open>What an attempt added to the list of calls, and two kinds of call.\<close>

definition events_since :: "'b world \<Rightarrow> 'b world \<Rightarrow> event list" where
  "events_since w w' = drop (length (trace w)) (trace w')"

fun is_derivation :: "event \<Rightarrow> bool" where
  "is_derivation (Derived_salted_password p s i) = True"
| "is_derivation e = False"

fun is_signature_check :: "event \<Rightarrow> bool" where
  "is_signature_check (Computed_server_key k) = True"
| "is_signature_check (Computed_server_signature k) = True"
| "is_signature_check (Compared_signature a b) = True"
| "is_signature_check e = False"

subsection \<open>A scripted broker\<close>

text \<open>
  A small instance on which the theorems below are run: a broker that answers the
  authenticate requests from a script, one handler per request; wire forms that carry
  the nonce alone; and an algorithm policy that joins its inputs instead of hashing
  them.
\<close>

type_synonym script = "(sasl_authenticate_request \<Rightarrow> sasl_authenticate_response) list"

definition demo_algo :: scram_algo where
  "demo_algo = \<lparr>min_iterations = 4096,
     hi = (\<lambda>p s i. p @ s),
     client_proof = (\<lambda>sp cf sf cl. sp @ ''/'' @ final_nonce cl),
     server_key = (\<lambda>sp. ''K:'' @ sp),
     server_signature = (\<lambda>k cf sf cl. k @ ''/'' @ final_nonce cl)\<rparr>"

definition demo_security :: "int \<Rightarrow> security" where
  "demo_security its = \<lparr>
     client_first_message_bytes = cf_nonce,
     parse_server_first_message =
       (\<lambda>b. Inr \<lparr>sf_nonce = b, sf_salt = ''salt'', sf_iterations = its\<rparr>),
     client_final_message_bytes = final_nonce,
     parse_server_final_message =
       (\<lambda>b. if take 2 b = ''e=''
            then Inr \<lparr>signature = [], sfin_error = Some (drop 2 b)\<rparr>
            else Inr \<lparr>signature = drop 2 b, sfin_error = None\<rparr>),
     fmt_with_ctx = (\<lambda>f args. ''sasl_client.cc - '' @ f)\<rparr>"

definition demo_broker :: "script broker" where
  "demo_broker = \<lparr>broker_id = 1,
     handshake_reply = (\<lambda>req s.
       (Inr \<lparr>handshake_error_code =
               (if mechanism req = ''SCRAM-SHA-256'' then none else other_error_code 33)\<rparr>, s)),
     authenticate_reply = (\<lambda>req s.
       case s of [] \<Rightarrow> (Inl (Foreign_exception ''disconnected''), [])
               | h # t \<Rightarrow> (Inr (h req), t))\<rparr>"

definition echo :: "bytes \<Rightarrow> sasl_authenticate_request \<Rightarrow> sasl_authenticate_response" where
  "echo ext req = \<lparr>error_code = none, error_message = None,
                   resp_auth_bytes = auth_bytes req @ ext\<rparr>"

definition say :: "bytes \<Rightarrow> sasl_authenticate_request \<Rightarrow> sasl_authenticate_response" where
  "say b req = \<lparr>error_code = none, error_message = None, resp_auth_bytes = b\<rparr>"

definition sign :: "bytes \<Rightarrow> sasl_authenticate_request \<Rightarrow> sasl_authenticate_response" where
  "sign k req = \<lparr>error_code = none, error_message = None,
                 resp_auth_bytes = ''v='' @ k @ ''/'' @ auth_bytes req\<rparr>"

definition refuse ::
  "error_code \<Rightarrow> string option \<Rightarrow> sasl_authenticate_request \<Rightarrow> sasl_authenticate_response" where
  "refuse c m req = \<lparr>error_code = c, error_message = m, resp_auth_bytes = []\<rparr>"

definition demo_world :: "script \<Rightarrow> script world" where
  "demo_world s = \<lparr>rng = (\<lambda>i. i), server = s, trace = []\<rparr>"

section \<open>Properties\<close>

subsection \<open>Auxiliary facts\<close>

lemma starts_with_iff: "starts_with s p \<longleftrightarrow> (\<exists>ext. s = p @ ext)"
  by (induction s p rule: starts_with.induct) auto

lemma starts_with_same: "starts_with p p"
  by (simp add: starts_with_iff)

lemma starts_with_append: "starts_with (p @ ext) p"
  by (simp add: starts_with_iff)

lemma length_gen_alphanum_string: "length (fst (gen_alphanum_string n g)) = n"
  by (simp add: gen_alphanum_string_def)

lemma set_gen_alphanum_string: "set (fst (gen_alphanum_string n g)) \<subseteq> set alphanum"
proof -
  have "length alphanum = 62" by (simp add: alphanum_def)
  then have "alphanum ! (k mod length alphanum) \<in> set alphanum" for k
    by (intro nth_mem) simp
  then show ?thesis by (auto simp: gen_alphanum_string_def)
qed

lemma do_authenticate_scram_stages:
  "do_authenticate_scram algo sec broker username password w =
     (case first_round sec broker username w of
        (Inl e, w1) \<Rightarrow> (Inl e, w1)
      | (Inr sf, w1) \<Rightarrow>
          if \<not> starts_with (sf_nonce sf) (attempt_nonce w)
          then (Inl (failure broker ''Server nonce doesn't match client nonce''), w1)
          else if sf_iterations sf < min_iterations algo
          then (Inl (failure broker (fmt_with_ctx sec
                  ''Server minimum iterations {} < required {}''
                  [sf_iterations sf, min_iterations algo])), w1)
          else (case second_round algo sec broker password
                       (attempt_client_first username w) sf w1 of
                  (Inl e, w4) \<Rightarrow> (Inl e, w4)
                | (Inr sfin, w4) \<Rightarrow>
                    (case sfin_error sfin of
                       Some msg \<Rightarrow> (Inl (failure broker msg), w4)
                     | None \<Rightarrow>
                         (if signature sfin \<noteq>
                               expected_signature algo password
                                 (attempt_client_first username w) sf
                          then Inl (failure broker
                                 ''Server signature does not match calculated signature'')
                          else Inr (),
                          w4\<lparr>trace := trace w4 @
                             [Computed_server_key (salted_password_of algo password sf),
                              Computed_server_signature
                                (server_key algo (salted_password_of algo password sf)),
                              Compared_signature (signature sfin)
                                (expected_signature algo password
                                   (attempt_client_first username w) sf)]\<rparr>))))"
  by (simp add: do_authenticate_scram_def first_round_def second_round_def
      attempt_nonce_def attempt_client_first_def salted_password_of_def client_final_of_def
      expected_signature_def failure_def emit_def Let_def split_beta
      split: sum.split option.split prod.split)

lemma send_scram_client_first_rejected:
  assumes "authenticate_reply broker \<lparr>auth_bytes = client_first_message_bytes sec cf\<rparr> (server w)
             = (Inr resp, s)"
      and "error_code resp \<noteq> none"
  shows "send_scram_client_first sec broker cf w =
           (Inl (Broker_error \<lparr>be_node_id = broker_id broker, be_error = error_code resp,
                   be_message = Some (case error_message resp of
                                        Some m \<Rightarrow> m | None \<Rightarrow> ''<no error message>'')\<rparr>),
            w\<lparr>server := s,
              trace := trace w @ [Dispatched_authenticate
                         \<lparr>auth_bytes = client_first_message_bytes sec cf\<rparr>]\<rparr>)"
  using assms
  by (simp add: send_scram_client_first_def dispatch_authenticate_def emit_def value_or_def)

lemma send_scram_client_final_rejected:
  assumes "authenticate_reply broker \<lparr>auth_bytes = client_final_message_bytes sec cl\<rparr> (server w)
             = (Inr resp, s)"
      and "error_code resp \<noteq> none"
  shows "send_scram_client_final sec broker cl w =
           (Inl (Broker_error \<lparr>be_node_id = broker_id broker, be_error = error_code resp,
                   be_message = Some (case error_message resp of
                                        Some m \<Rightarrow> m | None \<Rightarrow> ''<no error message>'')\<rparr>),
            w\<lparr>server := s,
              trace := trace w @ [Dispatched_authenticate
                         \<lparr>auth_bytes = client_final_message_bytes sec cl\<rparr>]\<rparr>)"
  using assms
  by (simp add: send_scram_client_final_def dispatch_authenticate_def emit_def value_or_def)

lemma send_scram_client_first_accepted:
  assumes "send_scram_client_first sec broker cf w = (Inr sf, w1)"
  shows "\<exists>payload. trace w1 = trace w @
            [Dispatched_authenticate \<lparr>auth_bytes = client_first_message_bytes sec cf\<rparr>,
             Decoded_server_first payload]
          \<and> parse_server_first_message sec payload = Inr sf \<and> rng w1 = rng w"
  using assms
  by (auto simp: send_scram_client_first_def dispatch_authenticate_def emit_def Let_def
           split: prod.splits sum.splits if_splits)

lemma send_scram_client_final_accepted:
  assumes "send_scram_client_final sec broker cl w = (Inr sfin, w1)"
  shows "\<exists>payload. trace w1 = trace w @
            [Dispatched_authenticate \<lparr>auth_bytes = client_final_message_bytes sec cl\<rparr>,
             Decoded_server_final payload]
          \<and> parse_server_final_message sec payload = Inr sfin \<and> rng w1 = rng w"
  using assms
  by (auto simp: send_scram_client_final_def dispatch_authenticate_def emit_def Let_def
           split: prod.splits sum.splits if_splits)

lemma send_scram_client_first_sends:
  "\<exists>rest. trace (snd (send_scram_client_first sec broker cf w)) = trace w @
      Dispatched_authenticate \<lparr>auth_bytes = client_first_message_bytes sec cf\<rparr> # rest"
  by (auto simp: send_scram_client_first_def dispatch_authenticate_def emit_def Let_def
           split: prod.splits sum.splits)

lemma send_scram_client_final_sends:
  "\<exists>rest. trace (snd (send_scram_client_final sec broker cl w)) = trace w @
      Dispatched_authenticate \<lparr>auth_bytes = client_final_message_bytes sec cl\<rparr> # rest"
  by (auto simp: send_scram_client_final_def dispatch_authenticate_def emit_def Let_def
           split: prod.splits sum.splits)

lemma rng_send_scram_client_first:
  "rng (snd (send_scram_client_first sec broker cf w)) = rng w"
  by (auto simp: send_scram_client_first_def dispatch_authenticate_def emit_def Let_def
           split: prod.splits sum.splits)

lemma rng_send_scram_client_final:
  "rng (snd (send_scram_client_final sec broker cl w)) = rng w"
  by (auto simp: send_scram_client_final_def dispatch_authenticate_def emit_def Let_def
           split: prod.splits sum.splits)

lemma first_round_accepted:
  assumes "first_round sec broker username w = (Inr sf, w1)"
  shows "\<exists>payload. trace w1 = trace w @
            [Dispatched_authenticate
               \<lparr>auth_bytes = client_first_message_bytes sec (attempt_client_first username w)\<rparr>,
             Decoded_server_first payload]"
  using send_scram_client_first_accepted [OF assms [unfolded first_round_def]] by auto

lemma second_round_accepted:
  assumes "second_round algo sec broker password cf sf w1 = (Inr sfin, w4)"
  shows "\<exists>payload. trace w4 = trace w1 @
            [Derived_salted_password password (sf_salt sf) (sf_iterations sf),
             Computed_client_proof (salted_password_of algo password sf),
             Dispatched_authenticate
               \<lparr>auth_bytes = client_final_message_bytes sec (client_final_of algo password cf sf)\<rparr>,
             Decoded_server_final payload]"
  using send_scram_client_final_accepted [OF assms [unfolded second_round_def]]
  by (auto simp: emit_def)

lemma second_round_sends:
  "\<exists>rest. trace (snd (second_round algo sec broker password cf sf w1)) = trace w1 @
      Derived_salted_password password (sf_salt sf) (sf_iterations sf)
      # Computed_client_proof (salted_password_of algo password sf)
      # Dispatched_authenticate
          \<lparr>auth_bytes = client_final_message_bytes sec (client_final_of algo password cf sf)\<rparr>
      # rest"
  using send_scram_client_final_sends [of sec broker "client_final_of algo password cf sf"
     "emit (Computed_client_proof (salted_password_of algo password sf))
          (emit (Derived_salted_password password (sf_salt sf) (sf_iterations sf)) w1)"]
  by (auto simp: second_round_def emit_def)

lemma attempt_extends_second_round:
  assumes "first_round sec broker username w = (Inr sf, w1)"
      and "starts_with (sf_nonce sf) (attempt_nonce w)"
      and "min_iterations algo \<le> sf_iterations sf"
  shows "\<exists>rest. trace (snd (do_authenticate_scram algo sec broker username password w)) =
           trace (snd (second_round algo sec broker password
                         (attempt_client_first username w) sf w1)) @ rest"
proof (cases "second_round algo sec broker password (attempt_client_first username w) sf w1")
  case (Pair r w4)
  show ?thesis
  proof (cases r)
    case (Inl e)
    with Pair assms show ?thesis by (simp add: do_authenticate_scram_stages)
  next
    case (Inr sfin)
    with Pair assms show ?thesis
      by (cases "sfin_error sfin") (simp_all add: do_authenticate_scram_stages)
  qed
qed

lemma derivation_follows_checks:
  assumes "first_round sec broker username w = (Inr sf, w1)"
      and "starts_with (sf_nonce sf) (attempt_nonce w)"
      and "min_iterations algo \<le> sf_iterations sf"
  shows "\<exists>rest. events_since w1 (snd (do_authenticate_scram algo sec broker username password w)) =
           Derived_salted_password password (sf_salt sf) (sf_iterations sf)
           # Computed_client_proof (salted_password_of algo password sf)
           # Dispatched_authenticate
               \<lparr>auth_bytes = client_final_message_bytes sec
                  (client_final_of algo password (attempt_client_first username w) sf)\<rparr>
           # rest"
proof -
  obtain r1 where r1:
    "trace (snd (second_round algo sec broker password (attempt_client_first username w) sf w1))
       = trace w1 @ Derived_salted_password password (sf_salt sf) (sf_iterations sf)
           # Computed_client_proof (salted_password_of algo password sf)
           # Dispatched_authenticate
               \<lparr>auth_bytes = client_final_message_bytes sec
                  (client_final_of algo password (attempt_client_first username w) sf)\<rparr>
           # r1"
    using second_round_sends by blast
  obtain r2 where
    "trace (snd (do_authenticate_scram algo sec broker username password w)) =
       trace (snd (second_round algo sec broker password
                     (attempt_client_first username w) sf w1)) @ r2"
    using attempt_extends_second_round [OF assms] by blast
  with r1 show ?thesis by (simp add: events_since_def)
qed

lemma attempt_extends_first_round:
  "\<exists>rest. trace (snd (do_authenticate_scram algo sec broker username password w)) =
     trace (snd (first_round sec broker username w)) @ rest"
proof (cases "first_round sec broker username w")
  case (Pair r w1)
  show ?thesis
  proof (cases r)
    case (Inl e)
    with Pair show ?thesis by (simp add: do_authenticate_scram_stages)
  next
    case (Inr sf)
    show ?thesis
    proof (cases "starts_with (sf_nonce sf) (attempt_nonce w)
                  \<and> min_iterations algo \<le> sf_iterations sf")
      case True
      obtain r3 where
        "trace (snd (do_authenticate_scram algo sec broker username password w)) =
           trace (snd (second_round algo sec broker password
                     (attempt_client_first username w) sf w1)) @ r3"
        using attempt_extends_second_round [of sec broker username w sf w1 algo password]
          True Pair Inr by auto
      moreover obtain r4 where
        "trace (snd (second_round algo sec broker password
                     (attempt_client_first username w) sf w1)) = trace w1 @ r4"
        using second_round_sends [of algo sec broker password
                "attempt_client_first username w" sf w1] by auto
      ultimately show ?thesis using Pair Inr by simp
    next
      case False
      with Pair Inr show ?thesis by (auto simp: do_authenticate_scram_stages)
    qed
  qed
qed

lemma rng_do_authenticate_scram:
  "rng (snd (do_authenticate_scram algo sec broker username password w)) =
     snd (gen_alphanum_string 130 (rng w))"
proof -
  have r1: "rng (snd (first_round sec broker username w)) = snd (gen_alphanum_string 130 (rng w))"
    by (simp add: first_round_def rng_send_scram_client_first)
  have r2: "rng (snd (second_round algo sec broker password cf sf w1)) = rng w1" for cf sf w1
    by (simp add: second_round_def rng_send_scram_client_final emit_def)
  show ?thesis
  proof (cases "first_round sec broker username w")
    case (Pair r w1)
    with r1 have w1: "rng w1 = snd (gen_alphanum_string 130 (rng w))" by simp
    show ?thesis
    proof (cases r)
      case (Inl e)
      with Pair w1 show ?thesis by (simp add: do_authenticate_scram_stages)
    next
      case (Inr sf)
      show ?thesis
      proof (cases "second_round algo sec broker password (attempt_client_first username w) sf w1")
        case P2: (Pair r' w4)
        with r2 [of "attempt_client_first username w" sf w1] w1
        have "rng w4 = snd (gen_alphanum_string 130 (rng w))" by simp
        with Pair Inr P2 w1 show ?thesis
          by (simp add: do_authenticate_scram_stages split: sum.splits option.splits)
      qed
    qed
  qed
qed

lemmas demo_defs = demo_algo_def demo_security_def demo_broker_def demo_world_def
  echo_def say_def sign_def refuse_def

lemmas round_defs = first_round_def second_round_def send_scram_client_first_def
  send_scram_client_final_def dispatch_authenticate_def emit_def attempt_client_first_def
  new_client_first_message_def new_client_final_message_def set_proof_def
  client_final_of_def salted_password_of_def Let_def

lemma demo_first_round:
  "fst (first_round (demo_security its) demo_broker username (demo_world (h # hs))) =
     Inr \<lparr>sf_nonce = resp_auth_bytes (h \<lparr>auth_bytes = attempt_nonce (demo_world (h # hs))\<rparr>),
           sf_salt = ''salt'', sf_iterations = its\<rparr>"
  if "error_code (h \<lparr>auth_bytes = attempt_nonce (demo_world (h # hs))\<rparr>) = none"
  using that by (simp add: round_defs demo_security_def demo_broker_def demo_world_def)

lemma broker_id_demo: "broker_id demo_broker = 1"
  by (simp add: demo_broker_def)

lemma events_since_demo: "events_since (demo_world s) w = trace w"
  by (simp add: events_since_def demo_world_def)

lemma short_nonce_rejected: "length s < 130 \<Longrightarrow> \<not> starts_with s (attempt_nonce w)"
proof
  assume short: "length s < 130" and "starts_with s (attempt_nonce w)"
  then obtain ext where "s = attempt_nonce w @ ext" by (auto simp: starts_with_iff)
  then have "length s = 130 + length ext"
    by (simp add: attempt_nonce_def length_gen_alphanum_string)
  with short show False by simp
qed

lemma demo_fields:
  "min_iterations demo_algo = 4096"
  "hi demo_algo p s i = p @ s"
  "client_first_message_bytes (demo_security its) cf = cf_nonce cf"
  "client_final_message_bytes (demo_security its) cl = final_nonce cl"
  "fmt_with_ctx (demo_security its) f args = ''sasl_client.cc - '' @ f"
  "authenticate_reply demo_broker req (h # t) = (Inr (h req), t)"
  by (simp_all add: demo_algo_def demo_security_def demo_broker_def)

subsection \<open>The claims\<close>

text \<open>
  \<^bold>\<open>C1.\<close> When the server-final message carries no error attribute, the authenticator
  computes the server key from the salted password, the expected signature from that key
  and the three exchanged messages (client-first, server-first, client-final with its
  proof), and compares it with the signature the server sent. The attempt returns
  normally when the two are equal and throws otherwise; the spec's
  \<open>ServerSignatureInvalid\<close> is the \<^verbatim>\<open>broker_error\<close> of line 131, with the message
  \<^verbatim>\<open>Server signature does not match calculated signature\<close>. The hypotheses say that
  the attempt got as far as a decoded server-final message; the three calls listed are
  all that follows it.
\<close>

theorem server_signature_verified:
  assumes "first_round sec broker username w = (Inr sf, w1)"
      and "starts_with (sf_nonce sf) (attempt_nonce w)"
      and "min_iterations algo \<le> sf_iterations sf"
      and "second_round algo sec broker password (attempt_client_first username w) sf w1
             = (Inr sfin, w4)"
      and "sfin_error sfin = None"
  shows "fst (do_authenticate_scram algo sec broker username password w) =
           (if signature sfin =
                 server_signature algo
                   (server_key algo (hi algo password (sf_salt sf) (sf_iterations sf)))
                   (attempt_client_first username w) sf
                   (client_final_of algo password (attempt_client_first username w) sf)
            then Inr ()
            else Inl (Broker_error \<lparr>be_node_id = broker_id broker,
                        be_error = sasl_authentication_failed,
                        be_message =
                          Some ''Server signature does not match calculated signature''\<rparr>))
         \<and> events_since w4 (snd (do_authenticate_scram algo sec broker username password w)) =
             [Computed_server_key (hi algo password (sf_salt sf) (sf_iterations sf)),
              Computed_server_signature
                (server_key algo (hi algo password (sf_salt sf) (sf_iterations sf))),
              Compared_signature (signature sfin)
                (server_signature algo
                   (server_key algo (hi algo password (sf_salt sf) (sf_iterations sf)))
                   (attempt_client_first username w) sf
                   (client_final_of algo password (attempt_client_first username w) sf))]"
  using assms
  by (simp add: do_authenticate_scram_stages events_since_def expected_signature_def
      salted_password_of_def failure_def)

theorem server_signature_verified_witness:
  "fst (do_authenticate_scram demo_algo (demo_security 4096) demo_broker ''alice'' ''pencil''
          (demo_world [echo ''srv'', sign ''K:pencilsalt''])) = Inr ()
   \<and> fst (do_authenticate_scram demo_algo (demo_security 4096) demo_broker ''alice'' ''pencil''
          (demo_world [echo ''srv'', say ''v=forged''])) =
       Inl (Broker_error \<lparr>be_node_id = 1, be_error = sasl_authentication_failed,
              be_message = Some ''Server signature does not match calculated signature''\<rparr>)"
proof -
  let ?sec = "demo_security 4096"
  let ?good = "demo_world [echo ''srv'', sign ''K:pencilsalt'']"
  let ?bad = "demo_world [echo ''srv'', say ''v=forged'']"
  let ?sfg = "\<lparr>sf_nonce = attempt_nonce ?good @ ''srv'', sf_salt = ''salt'',
                sf_iterations = 4096\<rparr>"
  let ?sfb = "\<lparr>sf_nonce = attempt_nonce ?bad @ ''srv'', sf_salt = ''salt'',
                sf_iterations = 4096\<rparr>"
  have g1: "first_round ?sec demo_broker ''alice'' ?good =
              (Inr ?sfg, snd (first_round ?sec demo_broker ''alice'' ?good))"
    by (simp add: prod_eq_iff demo_first_round echo_def)
  have g2: "second_round demo_algo ?sec demo_broker ''pencil''
              (attempt_client_first ''alice'' ?good) ?sfg
              (snd (first_round ?sec demo_broker ''alice'' ?good)) =
            (Inr \<lparr>signature = ''K:pencilsalt/'' @ attempt_nonce ?good @ ''srv'',
                  sfin_error = None\<rparr>,
             snd (second_round demo_algo ?sec demo_broker ''pencil''
              (attempt_client_first ''alice'' ?good) ?sfg
              (snd (first_round ?sec demo_broker ''alice'' ?good))))"
    by (simp add: prod_eq_iff round_defs demo_defs)
  have b1: "first_round ?sec demo_broker ''alice'' ?bad =
              (Inr ?sfb, snd (first_round ?sec demo_broker ''alice'' ?bad))"
    by (simp add: prod_eq_iff demo_first_round echo_def)
  have b2: "second_round demo_algo ?sec demo_broker ''pencil''
              (attempt_client_first ''alice'' ?bad) ?sfb
              (snd (first_round ?sec demo_broker ''alice'' ?bad)) =
            (Inr \<lparr>signature = ''forged'', sfin_error = None\<rparr>,
             snd (second_round demo_algo ?sec demo_broker ''pencil''
              (attempt_client_first ''alice'' ?bad) ?sfb
              (snd (first_round ?sec demo_broker ''alice'' ?bad))))"
    by (simp add: prod_eq_iff round_defs demo_defs)
  have pg: "starts_with (sf_nonce ?sfg) (attempt_nonce ?good)"
    and pb: "starts_with (sf_nonce ?sfb) (attempt_nonce ?bad)"
    by (simp_all add: starts_with_append)
  have it: "min_iterations demo_algo \<le> sf_iterations ?sfg"
     "min_iterations demo_algo \<le> sf_iterations ?sfb"
    by (simp_all add: demo_algo_def)
  show ?thesis
    using server_signature_verified [OF g1 pg it(1) g2]
      server_signature_verified [OF b1 pb it(2) b2]
    by (simp add: demo_algo_def demo_broker_def client_final_of_def set_proof_def
          new_client_final_message_def)
qed

text \<open>
  \<^bold>\<open>C2.\<close> When the nonce of the server-first message does not start with the nonce that
  was sent, the attempt throws the \<^verbatim>\<open>broker_error\<close> of line 82 (the spec's
  \<open>NonceMismatch\<close>), and the calls of the attempt hold no salted-password derivation: the
  world is left as the first round trip left it.
\<close>

theorem nonce_mismatch_before_derivation:
  assumes "first_round sec broker username w = (Inr sf, w1)"
      and "\<not> starts_with (sf_nonce sf) (attempt_nonce w)"
  shows "do_authenticate_scram algo sec broker username password w =
           (Inl (Broker_error \<lparr>be_node_id = broker_id broker,
                   be_error = sasl_authentication_failed,
                   be_message = Some ''Server nonce doesn't match client nonce''\<rparr>), w1)
         \<and> filter is_derivation
             (events_since w (snd (do_authenticate_scram algo sec broker username password w)))
           = []"
proof -
  have res: "do_authenticate_scram algo sec broker username password w =
           (Inl (Broker_error \<lparr>be_node_id = broker_id broker,
                   be_error = sasl_authentication_failed,
                   be_message = Some ''Server nonce doesn't match client nonce''\<rparr>), w1)"
    using assms by (simp add: do_authenticate_scram_stages failure_def)
  from first_round_accepted [OF assms(1)]
  have "filter is_derivation (events_since w w1) = []"
    by (auto simp: events_since_def)
  with res show ?thesis by simp
qed

theorem nonce_mismatch_before_derivation_witness:
  "\<not> starts_with ''stranger'' (attempt_nonce (demo_world [say ''stranger'']))
   \<and> fst (do_authenticate_scram demo_algo (demo_security 4096) demo_broker ''alice'' ''pencil''
          (demo_world [say ''stranger''])) =
       Inl (Broker_error \<lparr>be_node_id = 1, be_error = sasl_authentication_failed,
              be_message = Some ''Server nonce doesn't match client nonce''\<rparr>)
   \<and> filter is_derivation
         (trace (snd (do_authenticate_scram demo_algo (demo_security 4096) demo_broker
                        ''alice'' ''pencil'' (demo_world [say ''stranger'']))))
       = []"
proof -
  let ?sec = "demo_security 4096"
  let ?w = "demo_world [say ''stranger'']"
  let ?sf = "\<lparr>sf_nonce = ''stranger'', sf_salt = ''salt'', sf_iterations = 4096\<rparr>"
  have r1: "first_round ?sec demo_broker ''alice'' ?w =
              (Inr ?sf, snd (first_round ?sec demo_broker ''alice'' ?w))"
    by (simp add: prod_eq_iff demo_first_round say_def)
  have no: "\<not> starts_with (sf_nonce ?sf) (attempt_nonce ?w)"
    by (simp add: short_nonce_rejected)
  note t = nonce_mismatch_before_derivation [OF r1 no, of demo_algo "''pencil''"]
  have a: "fst (do_authenticate_scram demo_algo ?sec demo_broker ''alice'' ''pencil'' ?w) =
       Inl (Broker_error \<lparr>be_node_id = 1, be_error = sasl_authentication_failed,
              be_message = Some ''Server nonce doesn't match client nonce''\<rparr>)"
    using t [THEN conjunct1] by (simp add: broker_id_demo)
  have b: "filter is_derivation
         (trace (snd (do_authenticate_scram demo_algo ?sec demo_broker
                        ''alice'' ''pencil'' ?w))) = []"
    using t [THEN conjunct2] by (simp add: events_since_demo)
  from no a b show ?thesis by simp
qed

text \<open>
  \<^bold>\<open>C3, as stated\<close>, has every server-first message with an iteration count below the
  minimum fail with \<open>WeakIterationCount\<close>. The nonce is checked first (line 80, before
  line 88): a message with a foreign nonce and an iteration count of 1 fails with the
  error of the nonce check, not with that of the iteration count.
\<close>

theorem weak_iteration_count_counterexample:
  "fst (first_round (demo_security 1) demo_broker ''alice'' (demo_world [say ''stranger''])) =
     Inr \<lparr>sf_nonce = ''stranger'', sf_salt = ''salt'', sf_iterations = 1\<rparr>
   \<and> (1::int) < min_iterations demo_algo
   \<and> fst (do_authenticate_scram demo_algo (demo_security 1) demo_broker ''alice'' ''pencil''
          (demo_world [say ''stranger''])) =
       Inl (Broker_error \<lparr>be_node_id = 1, be_error = sasl_authentication_failed,
              be_message = Some ''Server nonce doesn't match client nonce''\<rparr>)
   \<and> fst (do_authenticate_scram demo_algo (demo_security 1) demo_broker ''alice'' ''pencil''
          (demo_world [say ''stranger''])) \<noteq>
       Inl (Broker_error \<lparr>be_node_id = 1, be_error = sasl_authentication_failed,
              be_message = Some (fmt_with_ctx (demo_security 1)
                ''Server minimum iterations {} < required {}''
                [1, min_iterations demo_algo])\<rparr>)"
  by code_simp

text \<open>
  \<^bold>\<open>C3, amended.\<close> For a server-first message that passed the nonce check: an iteration
  count below \<^verbatim>\<open>ScramAlgo::min_iterations\<close> makes the attempt throw the
  \<^verbatim>\<open>broker_error\<close> of line 89 (the spec's \<open>WeakIterationCount\<close>) with no derivation
  among the calls of the attempt; an iteration count of at least the minimum is accepted,
  and the next call is the derivation with that count.
\<close>

theorem weak_iteration_count_after_nonce_check:
  assumes "first_round sec broker username w = (Inr sf, w1)"
      and "starts_with (sf_nonce sf) (attempt_nonce w)"
  shows "(sf_iterations sf < min_iterations algo \<longrightarrow>
            do_authenticate_scram algo sec broker username password w =
              (Inl (Broker_error \<lparr>be_node_id = broker_id broker,
                      be_error = sasl_authentication_failed,
                      be_message = Some (fmt_with_ctx sec
                        ''Server minimum iterations {} < required {}''
                        [sf_iterations sf, min_iterations algo])\<rparr>), w1)
            \<and> filter is_derivation
                 (events_since w
                    (snd (do_authenticate_scram algo sec broker username password w))) = [])
       \<and> (min_iterations algo \<le> sf_iterations sf \<longrightarrow>
            take 1 (events_since w1
                      (snd (do_authenticate_scram algo sec broker username password w)))
              = [Derived_salted_password password (sf_salt sf) (sf_iterations sf)])"
proof (intro conjI impI)
  assume weak: "sf_iterations sf < min_iterations algo"
  with assms show res: "do_authenticate_scram algo sec broker username password w =
              (Inl (Broker_error \<lparr>be_node_id = broker_id broker,
                      be_error = sasl_authentication_failed,
                      be_message = Some (fmt_with_ctx sec
                        ''Server minimum iterations {} < required {}''
                        [sf_iterations sf, min_iterations algo])\<rparr>), w1)"
    by (simp add: do_authenticate_scram_stages failure_def)
  from first_round_accepted [OF assms(1)]
  have "filter is_derivation (events_since w w1) = []"
    by (auto simp: events_since_def)
  with res show "filter is_derivation
                 (events_since w
                    (snd (do_authenticate_scram algo sec broker username password w))) = []"
    by simp
next
  assume ok: "min_iterations algo \<le> sf_iterations sf"
  obtain r1 where r1:
    "trace (snd (second_round algo sec broker password (attempt_client_first username w) sf w1))
       = trace w1 @ Derived_salted_password password (sf_salt sf) (sf_iterations sf) # r1"
    using second_round_sends by blast
  obtain r2 where
    "trace (snd (do_authenticate_scram algo sec broker username password w)) =
       trace (snd (second_round algo sec broker password
                     (attempt_client_first username w) sf w1)) @ r2"
    using attempt_extends_second_round [OF assms ok] by blast
  with r1
  show "take 1 (events_since w1
                  (snd (do_authenticate_scram algo sec broker username password w)))
          = [Derived_salted_password password (sf_salt sf) (sf_iterations sf)]"
    by (simp add: events_since_def)
qed

theorem weak_iteration_count_after_nonce_check_witness:
  "starts_with (attempt_nonce (demo_world [echo ''srv'']) @ ''srv'')
     (attempt_nonce (demo_world [echo ''srv'']))
   \<and> fst (do_authenticate_scram demo_algo (demo_security 1) demo_broker ''alice'' ''pencil''
          (demo_world [echo ''srv''])) =
       Inl (Broker_error \<lparr>be_node_id = 1, be_error = sasl_authentication_failed,
              be_message = Some (fmt_with_ctx (demo_security 1)
                ''Server minimum iterations {} < required {}'' [1, 4096])\<rparr>)
   \<and> filter is_derivation
         (trace (snd (do_authenticate_scram demo_algo (demo_security 1) demo_broker
                        ''alice'' ''pencil'' (demo_world [echo ''srv'']))))
       = []
   \<and> take 1 (drop 2 (trace (snd (do_authenticate_scram demo_algo (demo_security 4096)
                        demo_broker ''alice'' ''pencil'' (demo_world [echo ''srv''])))))
       = [Derived_salted_password ''pencil'' ''salt'' 4096]"
proof -
  let ?w = "demo_world [echo ''srv'']"
  let ?sf = "\<lambda>its. \<lparr>sf_nonce = attempt_nonce ?w @ ''srv'', sf_salt = ''salt'',
                     sf_iterations = its\<rparr>"
  have r1: "first_round (demo_security its) demo_broker ''alice'' ?w =
              (Inr (?sf its), snd (first_round (demo_security its) demo_broker ''alice'' ?w))"
    for its
    by (simp add: prod_eq_iff demo_first_round echo_def)
  have pass: "starts_with (sf_nonce (?sf its)) (attempt_nonce ?w)" for its
    by (simp add: starts_with_append)
  have len: "length (trace (snd (first_round (demo_security its) demo_broker ''alice'' ?w))) = 2"
    for its
    using first_round_accepted [OF r1 [of its]] by (auto simp: demo_world_def)
  note weak = weak_iteration_count_after_nonce_check [OF r1 [of 1] pass [of 1],
            of demo_algo "''pencil''", THEN conjunct1, rule_format]
  note ok = weak_iteration_count_after_nonce_check [OF r1 [of 4096] pass [of 4096],
            of demo_algo "''pencil''", THEN conjunct2, rule_format]
  have lt: "sf_iterations (?sf 1) < min_iterations demo_algo"
    and ge: "min_iterations demo_algo \<le> sf_iterations (?sf 4096)"
    by (simp_all add: demo_algo_def)
  have a: "fst (do_authenticate_scram demo_algo (demo_security 1) demo_broker ''alice''
                  ''pencil'' ?w) =
       Inl (Broker_error \<lparr>be_node_id = 1, be_error = sasl_authentication_failed,
              be_message = Some (fmt_with_ctx (demo_security 1)
                ''Server minimum iterations {} < required {}'' [1, 4096])\<rparr>)"
    using weak [OF lt, THEN conjunct1] by (simp add: broker_id_demo demo_algo_def)
  have b: "filter is_derivation
         (trace (snd (do_authenticate_scram demo_algo (demo_security 1) demo_broker
                        ''alice'' ''pencil'' ?w))) = []"
    using weak [OF lt, THEN conjunct2] by (simp add: events_since_demo)
  have c: "take 1 (drop 2 (trace (snd (do_authenticate_scram demo_algo (demo_security 4096)
                        demo_broker ''alice'' ''pencil'' ?w))))
       = [Derived_salted_password ''pencil'' ''salt'' 4096]"
    using ok [OF ge] by (simp add: events_since_def len)
  from pass [of 1] a b c show ?thesis by simp
qed

text \<open>
  \<^bold>\<open>C4.\<close> When the server-final message carries an error attribute, the attempt throws
  the \<^verbatim>\<open>broker_error\<close> of line 120 (the spec's \<open>AuthenticationFailed\<close>) whose message
  is the text of the attribute, unchanged. The world is left as the second round trip left
  it, and the calls of the attempt hold no server key, no server signature and no
  comparison.
\<close>

theorem server_error_attribute:
  assumes "first_round sec broker username w = (Inr sf, w1)"
      and "starts_with (sf_nonce sf) (attempt_nonce w)"
      and "min_iterations algo \<le> sf_iterations sf"
      and "second_round algo sec broker password (attempt_client_first username w) sf w1
             = (Inr sfin, w4)"
      and "sfin_error sfin = Some msg"
  shows "do_authenticate_scram algo sec broker username password w =
           (Inl (Broker_error \<lparr>be_node_id = broker_id broker,
                   be_error = sasl_authentication_failed,
                   be_message = Some msg\<rparr>), w4)
         \<and> filter is_signature_check
             (events_since w (snd (do_authenticate_scram algo sec broker username password w)))
           = []"
proof -
  have res: "do_authenticate_scram algo sec broker username password w =
           (Inl (Broker_error \<lparr>be_node_id = broker_id broker,
                   be_error = sasl_authentication_failed,
                   be_message = Some msg\<rparr>), w4)"
    using assms by (simp add: do_authenticate_scram_stages failure_def)
  from first_round_accepted [OF assms(1)] second_round_accepted [OF assms(4)]
  have "filter is_signature_check (events_since w w4) = []"
    by (auto simp: events_since_def)
  with res show ?thesis by simp
qed

theorem server_error_attribute_witness:
  "fst (do_authenticate_scram demo_algo (demo_security 4096) demo_broker ''alice'' ''pencil''
          (demo_world [echo ''srv'', say ''e=invalid-proof''])) =
       Inl (Broker_error \<lparr>be_node_id = 1, be_error = sasl_authentication_failed,
              be_message = Some ''invalid-proof''\<rparr>)
   \<and> filter is_signature_check
         (trace (snd (do_authenticate_scram demo_algo (demo_security 4096) demo_broker
                        ''alice'' ''pencil'' (demo_world [echo ''srv'', say ''e=invalid-proof'']))))
       = []"
proof -
  let ?sec = "demo_security 4096"
  let ?w = "demo_world [echo ''srv'', say ''e=invalid-proof'']"
  let ?sf = "\<lparr>sf_nonce = attempt_nonce ?w @ ''srv'', sf_salt = ''salt'',
                sf_iterations = 4096\<rparr>"
  have r1: "first_round ?sec demo_broker ''alice'' ?w =
              (Inr ?sf, snd (first_round ?sec demo_broker ''alice'' ?w))"
    by (simp add: prod_eq_iff demo_first_round echo_def)
  have r2: "second_round demo_algo ?sec demo_broker ''pencil''
              (attempt_client_first ''alice'' ?w) ?sf
              (snd (first_round ?sec demo_broker ''alice'' ?w)) =
            (Inr \<lparr>signature = [], sfin_error = Some ''invalid-proof''\<rparr>,
             snd (second_round demo_algo ?sec demo_broker ''pencil''
              (attempt_client_first ''alice'' ?w) ?sf
              (snd (first_round ?sec demo_broker ''alice'' ?w))))"
    by (simp add: prod_eq_iff round_defs demo_defs)
  have pass: "starts_with (sf_nonce ?sf) (attempt_nonce ?w)"
    by (simp add: starts_with_append)
  have its: "min_iterations demo_algo \<le> sf_iterations ?sf"
    by (simp add: demo_algo_def)
  note t = server_error_attribute [OF r1 pass its r2]
  have a: "fst (do_authenticate_scram demo_algo ?sec demo_broker ''alice'' ''pencil'' ?w) =
       Inl (Broker_error \<lparr>be_node_id = 1, be_error = sasl_authentication_failed,
              be_message = Some ''invalid-proof''\<rparr>)"
    using t [THEN conjunct1] by (simp add: broker_id_demo)
  have b: "filter is_signature_check
         (trace (snd (do_authenticate_scram demo_algo ?sec demo_broker
                        ''alice'' ''pencil'' ?w))) = []"
    using t [THEN conjunct2] by (simp add: events_since_demo)
  from a b show ?thesis by simp
qed

text \<open>
  \<^bold>\<open>C5, as stated\<close>, has the nonce of the client-final message equal to the client nonce
  followed by the server nonce. Line 103 passes \<^verbatim>\<open>server_first.nonce()\<close> alone. In the
  run below the server answers the client nonce followed by \<^verbatim>\<open>srv\<close>; the wire form of
  the scripted instance is the nonce of the message, so the fifth call shows it: the
  client-final message carries the server nonce, which is not the client nonce followed
  by the server nonce.
\<close>

theorem full_nonce_counterexample:
  "fst (first_round (demo_security 4096) demo_broker ''alice''
          (demo_world [echo ''srv'', sign ''K:pencilsalt''])) =
     Inr \<lparr>sf_nonce = attempt_nonce (demo_world [echo ''srv'', sign ''K:pencilsalt'']) @ ''srv'',
           sf_salt = ''salt'', sf_iterations = 4096\<rparr>
   \<and> starts_with (attempt_nonce (demo_world [echo ''srv'', sign ''K:pencilsalt'']) @ ''srv'')
         (attempt_nonce (demo_world [echo ''srv'', sign ''K:pencilsalt'']))
   \<and> \<not> 4096 < min_iterations demo_algo
   \<and> trace (snd (do_authenticate_scram demo_algo (demo_security 4096) demo_broker
                    ''alice'' ''pencil'' (demo_world [echo ''srv'', sign ''K:pencilsalt'']))) ! 4 =
       Dispatched_authenticate
         \<lparr>auth_bytes = client_final_message_bytes (demo_security 4096)
            \<lparr>channel_binding = ''n,,'',
             final_nonce = attempt_nonce (demo_world [echo ''srv'', sign ''K:pencilsalt''])
                             @ ''srv'',
             final_proof = Some (''pencilsalt/''
                @ attempt_nonce (demo_world [echo ''srv'', sign ''K:pencilsalt'']) @ ''srv'')\<rparr>\<rparr>
   \<and> attempt_nonce (demo_world [echo ''srv'', sign ''K:pencilsalt'']) @ ''srv'' \<noteq>
       attempt_nonce (demo_world [echo ''srv'', sign ''K:pencilsalt''])
         @ attempt_nonce (demo_world [echo ''srv'', sign ''K:pencilsalt'']) @ ''srv''"
  by code_simp

text \<open>
  \<^bold>\<open>C5, amended.\<close> After a server-first message passed both checks, the client-final
  message is built with the channel binding \<^verbatim>\<open>n,,\<close> and with the nonce of the
  server-first message (which is the client nonce followed by what the server appended).
  Its proof is unset when \<^verbatim>\<open>ScramAlgo::client_proof\<close> receives it, and is set to the
  result of that call in the message that is then dispatched.
\<close>

theorem client_final_message_built:
  assumes "first_round sec broker username w = (Inr sf, w1)"
      and "starts_with (sf_nonce sf) (attempt_nonce w)"
      and "min_iterations algo \<le> sf_iterations sf"
  shows "(\<exists>ext. sf_nonce sf = attempt_nonce w @ ext)
       \<and> (\<exists>rest. events_since w1
                    (snd (do_authenticate_scram algo sec broker username password w)) =
             Derived_salted_password password (sf_salt sf) (sf_iterations sf)
             # Computed_client_proof (hi algo password (sf_salt sf) (sf_iterations sf))
             # Dispatched_authenticate
                 \<lparr>auth_bytes = client_final_message_bytes sec
                    \<lparr>channel_binding = ''n,,'', final_nonce = sf_nonce sf,
                     final_proof = Some
                       (client_proof algo (hi algo password (sf_salt sf) (sf_iterations sf))
                          (attempt_client_first username w) sf
                          \<lparr>channel_binding = ''n,,'', final_nonce = sf_nonce sf,
                           final_proof = None\<rparr>)\<rparr>\<rparr>
             # rest)"
  using derivation_follows_checks [OF assms, of password] assms(2)
  by (simp add: starts_with_iff client_final_of_def salted_password_of_def
      new_client_final_message_def set_proof_def)

theorem client_final_message_built_witness:
  "starts_with (attempt_nonce (demo_world [echo ''srv'']) @ ''srv'')
     (attempt_nonce (demo_world [echo ''srv'']))
   \<and> take 3 (drop 2 (trace (snd (do_authenticate_scram demo_algo (demo_security 4096)
                        demo_broker ''alice'' ''pencil'' (demo_world [echo ''srv''])))))
       = [Derived_salted_password ''pencil'' ''salt'' 4096,
          Computed_client_proof ''pencilsalt'',
          Dispatched_authenticate
            \<lparr>auth_bytes = attempt_nonce (demo_world [echo ''srv'']) @ ''srv''\<rparr>]"
proof -
  let ?sec = "demo_security 4096"
  let ?w = "demo_world [echo ''srv'']"
  let ?sf = "\<lparr>sf_nonce = attempt_nonce ?w @ ''srv'', sf_salt = ''salt'',
                sf_iterations = 4096\<rparr>"
  have r1: "first_round ?sec demo_broker ''alice'' ?w =
              (Inr ?sf, snd (first_round ?sec demo_broker ''alice'' ?w))"
    by (simp add: prod_eq_iff demo_first_round echo_def)
  have pass: "starts_with (sf_nonce ?sf) (attempt_nonce ?w)"
    by (simp add: starts_with_append)
  have its: "min_iterations demo_algo \<le> sf_iterations ?sf"
    by (simp add: demo_algo_def)
  have len: "length (trace (snd (first_round ?sec demo_broker ''alice'' ?w))) = 2"
    using first_round_accepted [OF r1] by (auto simp: demo_world_def)
  note t = client_final_message_built [OF r1 pass its, of "''pencil''", THEN conjunct2]
  have "take 3 (drop 2 (trace (snd (do_authenticate_scram demo_algo ?sec
                        demo_broker ''alice'' ''pencil'' ?w))))
       = [Derived_salted_password ''pencil'' ''salt'' 4096,
          Computed_client_proof ''pencilsalt'',
          Dispatched_authenticate \<lparr>auth_bytes = attempt_nonce ?w @ ''srv''\<rparr>]"
    using t by (auto simp: events_since_def len demo_fields)
  with pass show ?thesis by simp
qed

text \<open>
  \<^bold>\<open>C6.\<close> The nonce of an attempt has 130 characters, all of them letters or digits. It
  is the nonce of the client-first message whose wire form is the first request of the
  attempt, and it is made from the first 130 draws of the random supply, which the attempt
  hands back without them: a later attempt draws afresh.
\<close>

theorem client_nonce_fresh:
  "length (attempt_nonce w) = 130
   \<and> set (attempt_nonce w) \<subseteq> set alphanum
   \<and> (\<exists>rest. events_since w (snd (do_authenticate_scram algo sec broker username password w)) =
         Dispatched_authenticate
           \<lparr>auth_bytes = client_first_message_bytes sec
              \<lparr>cf_username = username, cf_nonce = attempt_nonce w\<rparr>\<rparr> # rest)
   \<and> (\<forall>i. rng (snd (do_authenticate_scram algo sec broker username password w)) i
           = rng w (i + 130))"
proof -
  obtain r1 where
    "trace (snd (first_round sec broker username w)) = trace w @
       Dispatched_authenticate
         \<lparr>auth_bytes = client_first_message_bytes sec
            \<lparr>cf_username = username, cf_nonce = attempt_nonce w\<rparr>\<rparr> # r1"
    using send_scram_client_first_sends [of sec broker "attempt_client_first username w"
            "w\<lparr>rng := snd (gen_alphanum_string 130 (rng w))\<rparr>"]
    by (auto simp: first_round_def attempt_client_first_def new_client_first_message_def)
  moreover obtain r2 where
    "trace (snd (do_authenticate_scram algo sec broker username password w)) =
       trace (snd (first_round sec broker username w)) @ r2"
    using attempt_extends_first_round by blast
  ultimately have "\<exists>rest. events_since w
        (snd (do_authenticate_scram algo sec broker username password w)) =
         Dispatched_authenticate
           \<lparr>auth_bytes = client_first_message_bytes sec
              \<lparr>cf_username = username, cf_nonce = attempt_nonce w\<rparr>\<rparr> # rest"
    by (simp add: events_since_def)
  moreover have "\<forall>i. rng (snd (do_authenticate_scram algo sec broker username password w)) i
           = rng w (i + 130)"
    by (simp add: rng_do_authenticate_scram gen_alphanum_string_def)
  ultimately show ?thesis
    by (simp add: attempt_nonce_def length_gen_alphanum_string set_gen_alphanum_string)
qed

theorem client_nonce_fresh_witness:
  "attempt_nonce (demo_world []) =
     ''0123456789ABCDEFGHIJKLMNOPQRSTUVWXYZabcdefghijklmnopqrstuvwxyz0123456789ABCDEFGHIJKLMNOPQRSTUVWXYZabcdefghijklmnopqrstuvwxyz012345''
   \<and> length (attempt_nonce (demo_world [])) = 130
   \<and> set (attempt_nonce (demo_world [])) \<subseteq> set alphanum
   \<and> rng (snd (do_authenticate_scram demo_algo (demo_security 4096) demo_broker
                  ''alice'' ''pencil'' (demo_world []))) 0 = 130"
proof -
  note t = client_nonce_fresh [of "demo_world []" demo_algo "demo_security 4096" demo_broker
                                  "''alice''" "''pencil''"]
  have n: "attempt_nonce (demo_world []) =
     ''0123456789ABCDEFGHIJKLMNOPQRSTUVWXYZabcdefghijklmnopqrstuvwxyz0123456789ABCDEFGHIJKLMNOPQRSTUVWXYZabcdefghijklmnopqrstuvwxyz012345''"
    by code_simp
  have r: "rng (snd (do_authenticate_scram demo_algo (demo_security 4096) demo_broker
                  ''alice'' ''pencil'' (demo_world []))) 0 = 130"
    using t by (simp add: demo_world_def)
  from t n r show ?thesis by blast
qed

text \<open>
  \<^bold>\<open>C7.\<close> \<^verbatim>\<open>do_sasl_handshake\<close> dispatches one request, which names the mechanism, and
  takes one reply from the broker. A response with an error code other than
  \<^verbatim>\<open>none\<close> makes it throw a \<^verbatim>\<open>broker_error\<close> with the broker's id and that code
  (the spec's \<open>HandshakeRejected\<close>); otherwise it returns. Nothing is dispatched a second
  time in either case.
\<close>

theorem handshake_single_request:
  "events_since w (snd (do_sasl_handshake broker mech w))
     = [Dispatched_handshake \<lparr>mechanism = mech\<rparr>]
   \<and> server (snd (do_sasl_handshake broker mech w))
       = snd (handshake_reply broker \<lparr>mechanism = mech\<rparr> (server w))
   \<and> (\<forall>resp. fst (handshake_reply broker \<lparr>mechanism = mech\<rparr> (server w)) = Inr resp \<longrightarrow>
         fst (do_sasl_handshake broker mech w) =
           (if handshake_error_code resp = none then Inr ()
            else Inl (Broker_error \<lparr>be_node_id = broker_id broker,
                        be_error = handshake_error_code resp, be_message = None\<rparr>)))"
  by (auto simp: do_sasl_handshake_def dispatch_handshake_def emit_def events_since_def Let_def
           split: prod.splits sum.splits)

theorem handshake_single_request_witness:
  "fst (do_sasl_handshake demo_broker ''SCRAM-SHA-256'' (demo_world [])) = Inr ()
   \<and> fst (do_sasl_handshake demo_broker ''PLAIN'' (demo_world [])) =
       Inl (Broker_error \<lparr>be_node_id = 1, be_error = other_error_code 33, be_message = None\<rparr>)
   \<and> trace (snd (do_sasl_handshake demo_broker ''PLAIN'' (demo_world []))) =
       [Dispatched_handshake \<lparr>mechanism = ''PLAIN''\<rparr>]"
  using handshake_single_request [of "demo_world []" demo_broker "''SCRAM-SHA-256''"]
        handshake_single_request [of "demo_world []" demo_broker "''PLAIN''"]
  by (simp add: demo_broker_def demo_world_def events_since_def)

text \<open>
  \<^bold>\<open>C8.\<close> In either round, a response whose error code is not \<^verbatim>\<open>none\<close> makes the
  attempt throw a \<^verbatim>\<open>broker_error\<close> with the broker's id, that code, and the error
  message of the response or \<^verbatim>\<open><no error message>\<close> when it has none (the spec's
  \<open>ServerRejected\<close>). The calls of the attempt end with the dispatch: neither parsing
  constructor is called on the payload.
\<close>

theorem server_rejected_without_decoding:
  assumes "error_code resp \<noteq> none"
  shows "(authenticate_reply broker
            \<lparr>auth_bytes = client_first_message_bytes sec (attempt_client_first username w)\<rparr>
            (server w) = (Inr resp, s)
          \<longrightarrow> fst (do_authenticate_scram algo sec broker username password w) =
                Inl (Broker_error \<lparr>be_node_id = broker_id broker, be_error = error_code resp,
                       be_message = Some (case error_message resp of
                                            Some m \<Rightarrow> m | None \<Rightarrow> ''<no error message>'')\<rparr>)
              \<and> events_since w
                    (snd (do_authenticate_scram algo sec broker username password w)) =
                  [Dispatched_authenticate
                     \<lparr>auth_bytes = client_first_message_bytes sec
                        (attempt_client_first username w)\<rparr>])
       \<and> (first_round sec broker username w = (Inr sf, w1)
          \<and> starts_with (sf_nonce sf) (attempt_nonce w)
          \<and> min_iterations algo \<le> sf_iterations sf
          \<and> authenticate_reply broker
               \<lparr>auth_bytes = client_final_message_bytes sec
                  (client_final_of algo password (attempt_client_first username w) sf)\<rparr>
               (server w1) = (Inr resp, s)
          \<longrightarrow> fst (do_authenticate_scram algo sec broker username password w) =
                Inl (Broker_error \<lparr>be_node_id = broker_id broker, be_error = error_code resp,
                       be_message = Some (case error_message resp of
                                            Some m \<Rightarrow> m | None \<Rightarrow> ''<no error message>'')\<rparr>)
              \<and> events_since w1
                    (snd (do_authenticate_scram algo sec broker username password w)) =
                  [Derived_salted_password password (sf_salt sf) (sf_iterations sf),
                   Computed_client_proof (hi algo password (sf_salt sf) (sf_iterations sf)),
                   Dispatched_authenticate
                     \<lparr>auth_bytes = client_final_message_bytes sec
                        (client_final_of algo password
                           (attempt_client_first username w) sf)\<rparr>])"
proof (intro conjI impI)
  assume reply: "authenticate_reply broker
            \<lparr>auth_bytes = client_first_message_bytes sec (attempt_client_first username w)\<rparr>
            (server w) = (Inr resp, s)"
  have "first_round sec broker username w =
          (Inl (Broker_error \<lparr>be_node_id = broker_id broker, be_error = error_code resp,
                   be_message = Some (case error_message resp of
                                        Some m \<Rightarrow> m | None \<Rightarrow> ''<no error message>'')\<rparr>),
           w\<lparr>rng := snd (gen_alphanum_string 130 (rng w)), server := s,
              trace := trace w @ [Dispatched_authenticate
                 \<lparr>auth_bytes = client_first_message_bytes sec
                    (attempt_client_first username w)\<rparr>]\<rparr>)"
    unfolding first_round_def
    using send_scram_client_first_rejected [of broker sec "attempt_client_first username w"
        "w\<lparr>rng := snd (gen_alphanum_string 130 (rng w))\<rparr>" resp s] reply assms
    by simp
  then show "fst (do_authenticate_scram algo sec broker username password w) =
                Inl (Broker_error \<lparr>be_node_id = broker_id broker, be_error = error_code resp,
                       be_message = Some (case error_message resp of
                                            Some m \<Rightarrow> m | None \<Rightarrow> ''<no error message>'')\<rparr>)"
    and "events_since w
                    (snd (do_authenticate_scram algo sec broker username password w)) =
                  [Dispatched_authenticate
                     \<lparr>auth_bytes = client_first_message_bytes sec
                        (attempt_client_first username w)\<rparr>]"
    by (simp_all add: do_authenticate_scram_stages events_since_def)
next
  assume h: "first_round sec broker username w = (Inr sf, w1)
          \<and> starts_with (sf_nonce sf) (attempt_nonce w)
          \<and> min_iterations algo \<le> sf_iterations sf
          \<and> authenticate_reply broker
               \<lparr>auth_bytes = client_final_message_bytes sec
                  (client_final_of algo password (attempt_client_first username w) sf)\<rparr>
               (server w1) = (Inr resp, s)"
  have "second_round algo sec broker password (attempt_client_first username w) sf w1 =
          (Inl (Broker_error \<lparr>be_node_id = broker_id broker, be_error = error_code resp,
                   be_message = Some (case error_message resp of
                                        Some m \<Rightarrow> m | None \<Rightarrow> ''<no error message>'')\<rparr>),
           w1\<lparr>server := s,
              trace := trace w1 @
                [Derived_salted_password password (sf_salt sf) (sf_iterations sf),
                 Computed_client_proof (hi algo password (sf_salt sf) (sf_iterations sf)),
                 Dispatched_authenticate
                   \<lparr>auth_bytes = client_final_message_bytes sec
                      (client_final_of algo password (attempt_client_first username w) sf)\<rparr>]\<rparr>)"
    unfolding second_round_def
    using send_scram_client_final_rejected [of broker sec
        "client_final_of algo password (attempt_client_first username w) sf"
        "emit (Computed_client_proof (salted_password_of algo password sf))
          (emit (Derived_salted_password password (sf_salt sf) (sf_iterations sf)) w1)" resp s]
      h assms
    by (simp add: emit_def salted_password_of_def)
  with h show "fst (do_authenticate_scram algo sec broker username password w) =
                Inl (Broker_error \<lparr>be_node_id = broker_id broker, be_error = error_code resp,
                       be_message = Some (case error_message resp of
                                            Some m \<Rightarrow> m | None \<Rightarrow> ''<no error message>'')\<rparr>)"
    and "events_since w1
                    (snd (do_authenticate_scram algo sec broker username password w)) =
                  [Derived_salted_password password (sf_salt sf) (sf_iterations sf),
                   Computed_client_proof (hi algo password (sf_salt sf) (sf_iterations sf)),
                   Dispatched_authenticate
                     \<lparr>auth_bytes = client_final_message_bytes sec
                        (client_final_of algo password
                           (attempt_client_first username w) sf)\<rparr>]"
    by (simp_all add: do_authenticate_scram_stages events_since_def)
qed

theorem server_rejected_without_decoding_witness:
  "fst (do_authenticate_scram demo_algo (demo_security 4096) demo_broker ''alice'' ''pencil''
          (demo_world [refuse sasl_authentication_failed (Some ''unknown user'')])) =
     Inl (Broker_error \<lparr>be_node_id = 1, be_error = sasl_authentication_failed,
            be_message = Some ''unknown user''\<rparr>)
   \<and> trace (snd (do_authenticate_scram demo_algo (demo_security 4096) demo_broker
                    ''alice'' ''pencil''
                    (demo_world [refuse sasl_authentication_failed (Some ''unknown user'')]))) =
       [Dispatched_authenticate
          \<lparr>auth_bytes = attempt_nonce
             (demo_world [refuse sasl_authentication_failed (Some ''unknown user'')])\<rparr>]
   \<and> fst (do_authenticate_scram demo_algo (demo_security 4096) demo_broker ''alice'' ''pencil''
          (demo_world [echo ''srv'', refuse (other_error_code 34) None])) =
     Inl (Broker_error \<lparr>be_node_id = 1, be_error = other_error_code 34,
            be_message = Some ''<no error message>''\<rparr>)
   \<and> drop 2 (trace (snd (do_authenticate_scram demo_algo (demo_security 4096) demo_broker
                    ''alice'' ''pencil''
                    (demo_world [echo ''srv'', refuse (other_error_code 34) None])))) =
       [Derived_salted_password ''pencil'' ''salt'' 4096,
        Computed_client_proof ''pencilsalt'',
        Dispatched_authenticate
          \<lparr>auth_bytes = attempt_nonce
             (demo_world [echo ''srv'', refuse (other_error_code 34) None]) @ ''srv''\<rparr>]"
proof -
  let ?sec = "demo_security 4096"
  let ?w = "demo_world [refuse sasl_authentication_failed (Some ''unknown user'')]"
  let ?r = "\<lparr>error_code = sasl_authentication_failed, error_message = Some ''unknown user'',
               resp_auth_bytes = []\<rparr>"
  let ?v = "demo_world [echo ''srv'', refuse (other_error_code 34) None]"
  let ?q = "\<lparr>error_code = other_error_code 34, error_message = None, resp_auth_bytes = []\<rparr>"
  let ?sf = "\<lparr>sf_nonce = attempt_nonce ?v @ ''srv'', sf_salt = ''salt'',
                sf_iterations = 4096\<rparr>"
  have c1: "error_code ?r \<noteq> none" and c2: "error_code ?q \<noteq> none"
    by simp_all
  have reply1: "authenticate_reply demo_broker
            \<lparr>auth_bytes = client_first_message_bytes ?sec (attempt_client_first ''alice'' ?w)\<rparr>
            (server ?w) = (Inr ?r, [])"
    by (simp add: demo_broker_def demo_world_def refuse_def)
  have r1: "first_round ?sec demo_broker ''alice'' ?v =
              (Inr ?sf, snd (first_round ?sec demo_broker ''alice'' ?v))"
    by (simp add: prod_eq_iff demo_first_round echo_def)
  have pass: "starts_with (sf_nonce ?sf) (attempt_nonce ?v)"
    by (simp add: starts_with_append)
  have its: "min_iterations demo_algo \<le> sf_iterations ?sf"
    by (simp add: demo_fields)
  have srv: "server (snd (first_round ?sec demo_broker ''alice'' ?v)) =
               [refuse (other_error_code 34) None]"
    by (simp add: round_defs demo_defs)
  have reply2: "authenticate_reply demo_broker
               \<lparr>auth_bytes = client_final_message_bytes ?sec
                  (client_final_of demo_algo ''pencil'' (attempt_client_first ''alice'' ?v) ?sf)\<rparr>
               (server (snd (first_round ?sec demo_broker ''alice'' ?v))) = (Inr ?q, [])"
    by (simp add: srv demo_fields refuse_def)
  have len: "length (trace (snd (first_round ?sec demo_broker ''alice'' ?v))) = 2"
    using first_round_accepted [OF r1] by (auto simp: demo_world_def)
  note round1 = server_rejected_without_decoding [OF c1, THEN conjunct1, rule_format,
      OF reply1, of demo_algo "''pencil''"]
  note round2 = server_rejected_without_decoding [OF c2, THEN conjunct2, rule_format,
      OF conjI [OF r1 conjI [OF pass conjI [OF its reply2]]]]
  have a: "fst (do_authenticate_scram demo_algo ?sec demo_broker ''alice'' ''pencil'' ?w) =
     Inl (Broker_error \<lparr>be_node_id = 1, be_error = sasl_authentication_failed,
            be_message = Some ''unknown user''\<rparr>)"
    using round1 [THEN conjunct1] by (simp add: broker_id_demo)
  have b: "trace (snd (do_authenticate_scram demo_algo ?sec demo_broker
                    ''alice'' ''pencil'' ?w)) =
       [Dispatched_authenticate \<lparr>auth_bytes = attempt_nonce ?w\<rparr>]"
    using round1 [THEN conjunct2]
    by (simp add: events_since_demo demo_fields attempt_client_first_def
          new_client_first_message_def)
  have c: "fst (do_authenticate_scram demo_algo ?sec demo_broker ''alice'' ''pencil'' ?v) =
     Inl (Broker_error \<lparr>be_node_id = 1, be_error = other_error_code 34,
            be_message = Some ''<no error message>''\<rparr>)"
    using round2 [THEN conjunct1] by (simp add: broker_id_demo)
  have d: "drop 2 (trace (snd (do_authenticate_scram demo_algo ?sec demo_broker
                    ''alice'' ''pencil'' ?v))) =
       [Derived_salted_password ''pencil'' ''salt'' 4096,
        Computed_client_proof ''pencilsalt'',
        Dispatched_authenticate \<lparr>auth_bytes = attempt_nonce ?v @ ''srv''\<rparr>]"
    using round2 [THEN conjunct2]
    by (simp add: events_since_def len demo_fields client_final_of_def set_proof_def
          new_client_final_message_def)
  from a b c d show ?thesis by simp
qed

text \<open>
  \<^bold>\<open>C9, as stated\<close>, has an attempt whose server nonce equals the client nonce proceed
  to key derivation. The iteration count is checked in between (line 88): with an equal
  nonce and an iteration count of 1 the attempt throws and derives nothing.
\<close>

theorem equal_nonce_counterexample:
  "fst (first_round (demo_security 1) demo_broker ''alice'' (demo_world [echo ''''])) =
     Inr \<lparr>sf_nonce = attempt_nonce (demo_world [echo '''']), sf_salt = ''salt'',
           sf_iterations = 1\<rparr>
   \<and> starts_with (attempt_nonce (demo_world [echo ''''])) (attempt_nonce (demo_world [echo '''']))
   \<and> fst (do_authenticate_scram demo_algo (demo_security 1) demo_broker ''alice'' ''pencil''
          (demo_world [echo ''''])) =
       Inl (Broker_error \<lparr>be_node_id = 1, be_error = sasl_authentication_failed,
              be_message = Some (fmt_with_ctx (demo_security 1)
                ''Server minimum iterations {} < required {}'' [1, 4096])\<rparr>)
   \<and> filter is_derivation
         (trace (snd (do_authenticate_scram demo_algo (demo_security 1) demo_broker
                        ''alice'' ''pencil'' (demo_world [echo ''''])))) = []"
  by code_simp

text \<open>
  \<^bold>\<open>C9, amended.\<close> A server nonce that equals the client nonce, with nothing appended,
  passes the check of line 80; when the iteration count is at least the minimum as well,
  the next call of the attempt is the derivation.
\<close>

theorem equal_nonce_passes:
  assumes "first_round sec broker username w = (Inr sf, w1)"
      and "sf_nonce sf = attempt_nonce w"
  shows "starts_with (sf_nonce sf) (attempt_nonce w)
       \<and> (min_iterations algo \<le> sf_iterations sf \<longrightarrow>
            take 1 (events_since w1
                      (snd (do_authenticate_scram algo sec broker username password w)))
              = [Derived_salted_password password (sf_salt sf) (sf_iterations sf)])"
proof (intro conjI impI)
  show pass: "starts_with (sf_nonce sf) (attempt_nonce w)"
    using assms(2) by (simp add: starts_with_same)
  assume "min_iterations algo \<le> sf_iterations sf"
  from derivation_follows_checks [OF assms(1) pass this, of password]
  show "take 1 (events_since w1
                      (snd (do_authenticate_scram algo sec broker username password w)))
              = [Derived_salted_password password (sf_salt sf) (sf_iterations sf)]"
    by auto
qed

theorem equal_nonce_passes_witness:
  "fst (first_round (demo_security 4096) demo_broker ''alice'' (demo_world [echo ''''])) =
     Inr \<lparr>sf_nonce = attempt_nonce (demo_world [echo '''']), sf_salt = ''salt'',
           sf_iterations = 4096\<rparr>
   \<and> starts_with (attempt_nonce (demo_world [echo ''''])) (attempt_nonce (demo_world [echo '''']))
   \<and> take 1 (drop 2 (trace (snd (do_authenticate_scram demo_algo (demo_security 4096)
                        demo_broker ''alice'' ''pencil'' (demo_world [echo ''''])))))
       = [Derived_salted_password ''pencil'' ''salt'' 4096]"
proof -
  let ?sec = "demo_security 4096"
  let ?w = "demo_world [echo '''']"
  let ?sf = "\<lparr>sf_nonce = attempt_nonce ?w, sf_salt = ''salt'', sf_iterations = 4096\<rparr>"
  have f1: "fst (first_round ?sec demo_broker ''alice'' ?w) = Inr ?sf"
    by (simp add: demo_first_round echo_def)
  then have r1: "first_round ?sec demo_broker ''alice'' ?w =
              (Inr ?sf, snd (first_round ?sec demo_broker ''alice'' ?w))"
    by (simp add: prod_eq_iff)
  have eq: "sf_nonce ?sf = attempt_nonce ?w" by simp
  have its: "min_iterations demo_algo \<le> sf_iterations ?sf"
    by (simp add: demo_fields)
  have len: "length (trace (snd (first_round ?sec demo_broker ''alice'' ?w))) = 2"
    using first_round_accepted [OF r1] by (auto simp: demo_world_def)
  note t = equal_nonce_passes [OF r1 eq, of demo_algo "''pencil''"]
  have a: "starts_with (attempt_nonce ?w) (attempt_nonce ?w)"
    using t [THEN conjunct1] by simp
  have b: "take 1 (drop 2 (trace (snd (do_authenticate_scram demo_algo ?sec
                        demo_broker ''alice'' ''pencil'' ?w))))
       = [Derived_salted_password ''pencil'' ''salt'' 4096]"
    using t [THEN conjunct2, rule_format, OF its] by (simp add: events_since_def len)
  from f1 a b show ?thesis by simp
qed

text \<open>
  \<^bold>\<open>C10.\<close> Once the server-first message is received, a failure of the attempt is either
  the one that \<^verbatim>\<open>send_scram_client_final\<close> ended with, or one of the four that
  \<^verbatim>\<open>do_authenticate_scram\<close> throws itself (nonce mismatch, weak iteration count,
  error attribute of the server, signature mismatch). Each of the four is a
  \<^verbatim>\<open>broker_error\<close> with the broker's id and the code
  \<^verbatim>\<open>sasl_authentication_failed\<close>; they differ in the message alone.
\<close>

theorem failures_share_error_code:
  assumes "first_round sec broker username w = (Inr sf, w1)"
      and "fst (do_authenticate_scram algo sec broker username password w) = Inl e"
  shows "(starts_with (sf_nonce sf) (attempt_nonce w)
          \<and> min_iterations algo \<le> sf_iterations sf
          \<and> fst (second_round algo sec broker password (attempt_client_first username w) sf w1)
              = Inl e)
       \<or> (\<exists>m. e = Broker_error \<lparr>be_node_id = broker_id broker,
                     be_error = sasl_authentication_failed, be_message = Some m\<rparr>
              \<and> (m = ''Server nonce doesn't match client nonce''
                 \<or> m = fmt_with_ctx sec ''Server minimum iterations {} < required {}''
                         [sf_iterations sf, min_iterations algo]
                 \<or> (\<exists>sfin. fst (second_round algo sec broker password
                                   (attempt_client_first username w) sf w1) = Inr sfin
                           \<and> sfin_error sfin = Some m)
                 \<or> m = ''Server signature does not match calculated signature''))"
  using assms
  by (auto simp: do_authenticate_scram_stages failure_def
           split: prod.splits sum.splits option.splits if_splits)

theorem failures_share_error_code_witness:
  "fst (do_authenticate_scram demo_algo (demo_security 4096) demo_broker ''alice'' ''pencil''
          (demo_world [echo ''srv'', say ''v=forged''])) =
     Inl (Broker_error \<lparr>be_node_id = 1, be_error = sasl_authentication_failed,
            be_message = Some ''Server signature does not match calculated signature''\<rparr>)
   \<and> fst (second_round demo_algo (demo_security 4096) demo_broker ''pencil''
            (attempt_client_first ''alice'' (demo_world [echo ''srv'', say ''v=forged'']))
            \<lparr>sf_nonce = attempt_nonce (demo_world [echo ''srv'', say ''v=forged'']) @ ''srv'',
              sf_salt = ''salt'', sf_iterations = 4096\<rparr>
            (snd (first_round (demo_security 4096) demo_broker ''alice''
                    (demo_world [echo ''srv'', say ''v=forged''])))) =
       Inr \<lparr>signature = ''forged'', sfin_error = None\<rparr>
   \<and> (\<exists>m. Broker_error \<lparr>be_node_id = 1, be_error = sasl_authentication_failed,
            be_message = Some ''Server signature does not match calculated signature''\<rparr> =
          Broker_error \<lparr>be_node_id = broker_id demo_broker,
            be_error = sasl_authentication_failed, be_message = Some m\<rparr>)"
proof -
  let ?sec = "demo_security 4096"
  let ?w = "demo_world [echo ''srv'', say ''v=forged'']"
  let ?sf = "\<lparr>sf_nonce = attempt_nonce ?w @ ''srv'', sf_salt = ''salt'',
                sf_iterations = 4096\<rparr>"
  let ?e = "Broker_error \<lparr>be_node_id = 1, be_error = sasl_authentication_failed,
            be_message = Some ''Server signature does not match calculated signature''\<rparr>"
  have r1: "first_round ?sec demo_broker ''alice'' ?w =
              (Inr ?sf, snd (first_round ?sec demo_broker ''alice'' ?w))"
    by (simp add: prod_eq_iff demo_first_round echo_def)
  have fails: "fst (do_authenticate_scram demo_algo ?sec demo_broker ''alice'' ''pencil'' ?w)
                 = Inl ?e"
    by code_simp
  have r2: "fst (second_round demo_algo ?sec demo_broker ''pencil''
              (attempt_client_first ''alice'' ?w) ?sf
              (snd (first_round ?sec demo_broker ''alice'' ?w))) =
            Inr \<lparr>signature = ''forged'', sfin_error = None\<rparr>"
    by (simp add: round_defs demo_defs)
  note t = failures_share_error_code [OF r1 fails]
  have "\<exists>m. ?e = Broker_error \<lparr>be_node_id = broker_id demo_broker,
            be_error = sasl_authentication_failed, be_message = Some m\<rparr>"
    using t r2 by auto
  with fails r2 show ?thesis by simp
qed

end
